theory Spec2Isabelle
  imports Main
begin

section \<open>Go runtime and standard library functions used by the provider\<close>

text \<open>
  A Go \<open>string\<close> is a sequence of bytes, here a \<open>char list\<close>. A Go \<open>int\<close> is modelled
  as \<open>int\<close>: the only arithmetic the provider does on it is counting the elements of a
  slice, which cannot overflow.
\<close>

datatype panic = IndexOutOfRange

text \<open>Slice indexing \<open>xs[i]\<close>: the Go runtime panics when \<open>i\<close> is out of range.\<close>

definition slice_index :: "'a list \<Rightarrow> int \<Rightarrow> panic + 'a" where
  "slice_index xs i = (if 0 \<le> i \<and> i < int (length xs) then Inr (xs ! nat i) else Inl IndexOutOfRange)"

text \<open>
  \<open>strconv.Itoa\<close>: the decimal digits of the magnitude, most significant first, with a
  leading minus sign for a negative number. Each digit is read from the digit table, as
  \<open>strconv\<close> does.
\<close>

definition digits :: string where
  "digits = ''0123456789''"

function formatBits :: "nat \<Rightarrow> string" where
  "formatBits u = (if u < 10 then [digits ! u] else formatBits (u div 10) @ [digits ! (u mod 10)])"
  by pat_completeness auto
termination
  by (relation "measure (\<lambda>u. u)") auto

declare formatBits.simps [simp del]

definition Itoa :: "int \<Rightarrow> string" where
  "Itoa i = (if i < 0 then CHR ''-'' # formatBits (nat (- i)) else formatBits (nat i))"

text \<open>\<open>strings.IndexByte\<close>: the position of the first occurrence of a byte, if any.\<close>

fun IndexByte :: "string \<Rightarrow> char \<Rightarrow> nat option" where
  "IndexByte [] c = None"
| "IndexByte (x # xs) c = (if x = c then Some 0 else map_option Suc (IndexByte xs c))"

text \<open>
  \<open>strings.Split(s, sep)\<close> for a separator of one byte, which is how the provider calls
  it: cut at the first separator, keep the part before it, go on with the part after it;
  what is left when no separator remains is the last element. The result is never empty.
\<close>

function Split :: "string \<Rightarrow> char \<Rightarrow> string list" where
  "Split s sep =
     (case IndexByte s sep of
        None \<Rightarrow> [s]
      | Some m \<Rightarrow> take m s # Split (drop (m + 1) s) sep)"
  by pat_completeness auto
termination
proof (relation "measure (\<lambda>(s, sep). length s)")
  show "wf (measure (\<lambda>(s, sep). length s))"
    by simp
next
  fix s :: string and sep m
  assume found: "IndexByte s sep = Some m"
  have "k < length t" if "IndexByte t sep = Some k" for t k
    using that by (induction t arbitrary: k) (auto split: if_splits)
  with found have "m < length s"
    by blast
  then show "((drop (m + 1) s, sep), (s, sep)) \<in> measure (\<lambda>(s, sep). length s)"
    by simp
qed

declare Split.simps [simp del]

text \<open>
  \<open>filepath.Ext\<close> on a system whose path separator is \<open>/\<close>: scan from the last byte
  towards the first, stop at a separator, and return the suffix that starts at the first
  dot met; the empty string when there is none. The first argument of the loop is the
  part of the path not yet scanned, reversed; the second is the part already scanned.
\<close>

fun extLoop :: "string \<Rightarrow> string \<Rightarrow> string" where
  "extLoop [] scanned = []"
| "extLoop (c # rest) scanned =
     (if c = CHR ''/'' then []
      else if c = CHR ''.'' then c # scanned
      else extLoop rest (c # scanned))"

definition Ext :: "string \<Rightarrow> string" where
  "Ext path = extLoop (rev path) []"

text \<open>\<open>strings.HasSuffix\<close> and \<open>strings.TrimSuffix\<close>.\<close>

definition HasSuffix :: "string \<Rightarrow> string \<Rightarrow> bool" where
  "HasSuffix s suffix \<longleftrightarrow>
     length suffix \<le> length s \<and> drop (length s - length suffix) s = suffix"

definition TrimSuffix :: "string \<Rightarrow> string \<Rightarrow> string" where
  "TrimSuffix s suffix = (if HasSuffix s suffix then take (length s - length suffix) s else s)"

text \<open>
  \<open>strings.TrimRight(s, cutset)\<close> for a cutset of one ASCII byte: drop the last byte
  as long as it is the byte of the cutset.
\<close>

function TrimRight :: "string \<Rightarrow> char \<Rightarrow> string" where
  "TrimRight s c = (if s \<noteq> [] \<and> last s = c then TrimRight (butlast s) c else s)"
  by pat_completeness auto
termination
  by (relation "measure (\<lambda>(s, c). length s)") auto

declare TrimRight.simps [simp del]

text \<open>
  \<open>strings.ToLower\<close>. A string of ASCII bytes only is lowered byte by byte. Any other
  string goes through \<open>strings.Map(unicode.ToLower, s)\<close>, which needs the Unicode case
  tables; that mapping is the parameter \<open>mapLower\<close>.
\<close>

definition lowerByte :: "char \<Rightarrow> char" where
  "lowerByte c =
     (if (65::nat) \<le> of_char c \<and> of_char c \<le> (90::nat) then char_of (of_char c + (32::nat)) else c)"

definition isASCII :: "string \<Rightarrow> bool" where
  "isASCII s = list_all (\<lambda>c. of_char c < (128::nat)) s"

definition ToLower :: "(string \<Rightarrow> string) \<Rightarrow> string \<Rightarrow> string" where
  "ToLower mapLower s = (if isASCII s then map lowerByte s else mapLower s)"

text \<open>
  \<open>time.Time\<close>, as far as \<open>IsZero\<close> reads it: the seconds since January 1 of year 1,
  00:00:00 UTC, and the nanoseconds within the second. The client library's \<open>DateTime\<close>
  embeds a \<open>time.Time\<close>.
\<close>

record DateTime =
  sec :: int
  nsec :: int

definition IsZero :: "DateTime \<Rightarrow> bool" where
  "IsZero t \<longleftrightarrow> sec t = 0 \<and> nsec t = 0"

definition zeroTime :: DateTime where
  "zeroTime = \<lparr>sec = 0, nsec = 0\<rparr>"


section \<open>The data model\<close>

subsection \<open>The Elemental Conductor client library\<close>

text \<open>
  The request and response types of the client library, with the fields the provider
  reads or writes, and \<open>Href\<close>, from which the library reads a job's identifier. A
  field the provider leaves out of a struct literal has Go's zero value. Of a
  \<open>JobError\<close> the provider reads nothing: it only tests whether the list of them is
  empty.
\<close>

record Location =
  URI :: string
  Username :: string
  Password :: string

record Input =
  FileInput :: Location

record Output =
  StreamAssemblyName :: string
  Order :: int
  Extension :: string

record StreamAssembly =
  Name :: string
  Preset :: string

record FileGroupSettings =
  Destination :: Location

record OutputGroup =
  Order :: int
  FileGroupSettings :: FileGroupSettings
  Type :: string
  Output :: "Output list"

record JobError =
  Code :: int
  CreatedAt :: DateTime
  Message :: string

record Job =
  Href :: string
  Input :: Input
  Priority :: int
  OutputGroup :: OutputGroup
  StreamAssembly :: "StreamAssembly list"
  Status :: string
  Submitted :: DateTime
  StartTime :: DateTime
  CompleteTime :: DateTime
  ErroredTime :: DateTime
  PercentComplete :: int
  ErrorMessages :: "JobError list"

record Client =
  Host :: string
  UserLogin :: string
  APIKey :: string
  AuthExpires :: int
  AccessKeyID :: string
  SecretAccessKey :: string
  Destination :: string

text \<open>\<open>elementalconductor.NewClient\<close> stores its arguments in a new client.\<close>

definition NewClient ::
  "string \<Rightarrow> string \<Rightarrow> string \<Rightarrow> int \<Rightarrow> string \<Rightarrow> string \<Rightarrow> string \<Rightarrow> Client" where
  "NewClient host userLogin apiKey authExpires accessKeyID secretAccessKey destination =
     \<lparr>Client.Host = host, UserLogin = userLogin, APIKey = apiKey, AuthExpires = authExpires,
      AccessKeyID = accessKeyID, SecretAccessKey = secretAccessKey,
      Destination = destination\<rparr>"


text \<open>
  The calls the client makes to the backend. \<open>PostJob\<close> and \<open>GetJob\<close> return a
  response and an error, of which exactly one is set: \<open>Inl err\<close> stands for
  \<open>(nil, err)\<close> and \<open>Inr resp\<close> for \<open>(resp, nil)\<close>. What an error is, is the
  library's business, so its type is a parameter. \<open>GetID\<close> is the library's method that
  reads the identifier of a job out of a response.
\<close>

record 'e backend =
  PostJob :: "Client \<Rightarrow> Job \<Rightarrow> 'e + Job"
  GetJob :: "Client \<Rightarrow> string \<Rightarrow> 'e + Job"
  GetID :: "Job \<Rightarrow> string"

subsection \<open>The provider package and the configuration\<close>

text \<open>
  Modelled from the spec: the declarations of package \<open>provider\<close> (the canonical
  status, the job status returned to the caller, the error type of an invalid
  configuration) and of package \<open>config\<close> are not among the sources; the constants and
  fields below are the ones the two providers name.
\<close>

datatype Status =
  StatusQueued | StatusStarted | StatusFinished | StatusFailed | StatusCanceled | StatusArchived

text \<open>
  A value of the status detail map, a Go \<open>map[string]interface{}\<close>: the provider stores
  strings, timestamps and the list of error messages in it.
\<close>

datatype detail = DetailString string | DetailTime DateTime | DetailErrors "JobError list"

record provider_JobStatus =
  ProviderName :: string
  ProviderJobID :: string
  Status :: Status
  ProviderStatus :: "string \<rightharpoonup> detail"

text \<open>
  The errors the factories return: \<open>provider.InvalidConfigError\<close>, and the plain error
  value that \<open>errors.New\<close> builds from a message, which also stands for an error of
  the AWS SDK.
\<close>

datatype error = InvalidConfigError string | ErrorString string

record ElementalConductor =
  Host :: string
  UserLogin :: string
  APIKey :: string
  AuthExpires :: int
  AccessKeyID :: string
  SecretAccessKey :: string
  Destination :: string

record MediaConvert =
  AccessKeyID :: string
  SecretAccessKey :: string
  Region :: string

record Config =
  ElementalConductor :: ElementalConductor
  MediaConvert :: MediaConvert


section \<open>The Elemental Conductor provider\<close>

definition Name :: string where
  "Name = ''elementalconductor''"

definition defaultJobPriority :: int where
  "defaultJobPriority = 50"

definition defaultOutputGroupOrder :: int where
  "defaultOutputGroupOrder = 1"

definition defaultExtension :: string where
  "defaultExtension = ''.mp4''"

definition errElementalConductorInvalidConfig :: error where
  "errElementalConductorInvalidConfig = InvalidConfigError
     ''missing Elemental user login or api key. Please define the environment variables ELEMENTALCONDUCTOR_USER_LOGIN and ELEMENTALCONDUCTOR_API_KEY or set these values in the configuration file''"

text \<open>
  The provider holds the configuration and the client. The type is not exported and the
  factory is the only place that builds a value of it, always with a client.
\<close>

record elementalConductorProvider =
  config :: Config
  client :: Client

subsection \<open>Status normalisation\<close>

text \<open>
  \<open>statusMap\<close> does not read its receiver. Its first argument is the Unicode mapping
  that \<open>ToLower\<close> needs for a string that is not pure ASCII.
\<close>

definition statusMap :: "(string \<Rightarrow> string) \<Rightarrow> string \<Rightarrow> Status" where
  "statusMap mapLower elementalConductorStatus =
     (let lowered = ToLower mapLower elementalConductorStatus in
      if lowered = ''pending'' then StatusQueued
      else if lowered = ''preprocessing'' then StatusStarted
      else if lowered = ''running'' then StatusStarted
      else if lowered = ''postprocessing'' then StatusStarted
      else if lowered = ''complete'' then StatusFinished
      else if lowered = ''cancelled'' then StatusCanceled
      else if lowered = ''archived'' then StatusArchived
      else StatusFailed)"

subsection \<open>The job specification builder\<close>

definition buildFullDestination :: "elementalConductorProvider \<Rightarrow> string \<Rightarrow> panic + string" where
  "buildFullDestination p source =
     (let sourceParts = Split source CHR ''/'' in
      case slice_index sourceParts (int (length sourceParts) - 1) of
        Inl pn \<Rightarrow> Inl pn
      | Inr sourceFilenamePart \<Rightarrow>
          (let sourceFileName = TrimSuffix sourceFilenamePart (Ext sourceFilenamePart);
               destination = TrimRight (Client.Destination (client p)) CHR ''/''
           in Inr (destination @ ''/'' @ sourceFileName)))"

text \<open>
  The loop of \<open>buildOutputsAndStreamAssemblies\<close> over the presets that are left, with
  the index of the next preset and the two lists built so far.
\<close>

fun buildOutputsAndStreamAssemblies_loop ::
  "int \<Rightarrow> string list \<Rightarrow> Output list \<Rightarrow> StreamAssembly list \<Rightarrow> Output list \<times> StreamAssembly list" where
  "buildOutputsAndStreamAssemblies_loop index [] outputList streamAssemblyList =
     (outputList, streamAssemblyList)"
| "buildOutputsAndStreamAssemblies_loop index (preset # rest) outputList streamAssemblyList =
     (let indexString = Itoa index;
          streamAssemblyName = ''stream_'' @ indexString;
          output = \<lparr>StreamAssemblyName = streamAssemblyName, Output.Order = index,
                    Extension = defaultExtension\<rparr>;
          streamAssembly = \<lparr>StreamAssembly.Name = streamAssemblyName, Preset = preset\<rparr>
      in buildOutputsAndStreamAssemblies_loop (index + 1) rest
           (outputList @ [output]) (streamAssemblyList @ [streamAssembly]))"

definition buildOutputsAndStreamAssemblies ::
  "string list \<Rightarrow> Output list \<times> StreamAssembly list" where
  "buildOutputsAndStreamAssemblies presets = buildOutputsAndStreamAssemblies_loop 0 presets [] []"

text \<open>\<open>newJob\<close> constructs a job spec from the given source and presets.\<close>

definition newJob :: "elementalConductorProvider \<Rightarrow> string \<Rightarrow> string list \<Rightarrow> panic + Job" where
  "newJob p source presets =
     (let inputLocation = \<lparr>URI = source,
                           Username = Client.AccessKeyID (client p),
                           Password = Client.SecretAccessKey (client p)\<rparr>
      in case buildFullDestination p source of
        Inl pn \<Rightarrow> Inl pn
      | Inr fullDestination \<Rightarrow>
          (let outputLocation = \<lparr>URI = fullDestination,
                                  Username = Client.AccessKeyID (client p),
                                  Password = Client.SecretAccessKey (client p)\<rparr>;
               (outputList, streamAssemblyList) = buildOutputsAndStreamAssemblies presets
           in Inr \<lparr>Href = [],
                   Input = \<lparr>FileInput = inputLocation\<rparr>,
                   Priority = defaultJobPriority,
                   OutputGroup = \<lparr>OutputGroup.Order = defaultOutputGroupOrder,
                                  FileGroupSettings = \<lparr>FileGroupSettings.Destination = outputLocation\<rparr>,
                                  Type = ''file_group_settings'',
                                  Output = outputList\<rparr>,
                   StreamAssembly = streamAssemblyList,
                   Job.Status = [],
                   Submitted = zeroTime,
                   StartTime = zeroTime,
                   CompleteTime = zeroTime,
                   ErroredTime = zeroTime,
                   PercentComplete = 0,
                   ErrorMessages = []\<rparr>))"

subsection \<open>Submitting and polling\<close>

text \<open>
  A Go function that returns a pointer and an error returns a pair; \<open>None\<close> is
  \<open>nil\<close>. A panic of the builder would end the submission, hence the outer sum.
\<close>

definition TranscodeWithPresets ::
  "'e backend \<Rightarrow> elementalConductorProvider \<Rightarrow> string \<Rightarrow> string list \<Rightarrow>
     panic + (provider_JobStatus option \<times> 'e option)" where
  "TranscodeWithPresets b p source presets =
     (case newJob p source presets of
        Inl pn \<Rightarrow> Inl pn
      | Inr job \<Rightarrow>
          (case PostJob b (client p) job of
             Inl err \<Rightarrow> Inr (None, Some err)
           | Inr resp \<Rightarrow>
               Inr (Some \<lparr>ProviderName = Name,
                          ProviderJobID = GetID b resp,
                          Status = StatusQueued,
                          ProviderStatus = Map.empty\<rparr>, None)))"

definition JobStatus ::
  "(string \<Rightarrow> string) \<Rightarrow> 'e backend \<Rightarrow> elementalConductorProvider \<Rightarrow> string \<Rightarrow>
     provider_JobStatus option \<times> 'e option" where
  "JobStatus mapLower b p jobID =
     (case GetJob b (client p) jobID of
        Inl err \<Rightarrow> (None, Some err)
      | Inr resp \<Rightarrow>
          (let providerStatus0 =
                 [''status'' \<mapsto> DetailString (Job.Status resp),
                  ''pct_complete'' \<mapsto> DetailString (Itoa (PercentComplete resp)),
                  ''submitted'' \<mapsto> DetailTime (Submitted resp)];
               providerStatus1 =
                 (if \<not> IsZero (StartTime resp)
                  then providerStatus0(''start_time'' \<mapsto> DetailTime (StartTime resp))
                  else providerStatus0);
               providerStatus2 =
                 (if \<not> IsZero (CompleteTime resp)
                  then providerStatus1(''complete_time'' \<mapsto> DetailTime (CompleteTime resp))
                  else providerStatus1);
               providerStatus3 =
                 (if \<not> IsZero (ErroredTime resp)
                  then providerStatus2(''errored_time'' \<mapsto> DetailTime (ErroredTime resp))
                  else providerStatus2);
               providerStatus =
                 (if length (ErrorMessages resp) > 0
                  then providerStatus3(''error_messages'' \<mapsto> DetailErrors (ErrorMessages resp))
                  else providerStatus3)
           in (Some \<lparr>ProviderName = Name,
                      ProviderJobID = GetID b resp,
                      Status = statusMap mapLower (Job.Status resp),
                      ProviderStatus = providerStatus\<rparr>, None)))"

subsection \<open>The factory\<close>

text \<open>
  The factory returns a provider and an error, of which one is \<open>nil\<close>, and, in the
  second component, the calls it made to the client library on the way.
\<close>

datatype call = CallNewClient | CallNewSession | CallMediaConvertNew

definition elementalConductorFactory ::
  "Config \<Rightarrow> (elementalConductorProvider option \<times> error option) \<times> call list" where
  "elementalConductorFactory cfg =
     (if ElementalConductor.Host (ElementalConductor cfg) = [] \<or>
         ElementalConductor.UserLogin (ElementalConductor cfg) = [] \<or>
         ElementalConductor.APIKey (ElementalConductor cfg) = [] \<or>
         ElementalConductor.AuthExpires (ElementalConductor cfg) = 0
      then ((None, Some errElementalConductorInvalidConfig), [])
      else
        (let c = NewClient
               (ElementalConductor.Host (ElementalConductor cfg))
               (ElementalConductor.UserLogin (ElementalConductor cfg))
               (ElementalConductor.APIKey (ElementalConductor cfg))
               (ElementalConductor.AuthExpires (ElementalConductor cfg))
               (ElementalConductor.AccessKeyID (ElementalConductor cfg))
               (ElementalConductor.SecretAccessKey (ElementalConductor cfg))
               (ElementalConductor.Destination (ElementalConductor cfg))
         in ((Some \<lparr>config = cfg, client = c\<rparr>, None), [CallNewClient])))"


section \<open>The factory of the Media Convert provider\<close>

text \<open>
  The AWS SDK is outside the repository. A session is built from static credentials and
  a region by \<open>session.NewSession\<close>, which may fail, and the service client from the
  session by \<open>mediaconvert.New\<close>; both are parameters of the factory, and so are the
  types of the session and of the service client.
\<close>

definition defaultAWSRegion :: string where
  "defaultAWSRegion = ''us-east-1''"

definition errAWSInvalidConfig :: error where
  "errAWSInvalidConfig = ErrorString
     ''invalid Media Convert config. Please define the configuration entries in the config file or environment variables''"

record Credentials =
  AccessKeyID :: string
  SecretAccessKey :: string
  SessionToken :: string

definition NewStaticCredentials :: "string \<Rightarrow> string \<Rightarrow> string \<Rightarrow> Credentials" where
  "NewStaticCredentials accessKeyID secret token =
     \<lparr>Credentials.AccessKeyID = accessKeyID, SecretAccessKey = secret, SessionToken = token\<rparr>"

record aws_Config =
  Credentials :: Credentials
  Region :: string

record 'm awsProvider =
  c :: 'm
  config :: MediaConvert

definition mediaConvertFactory ::
  "(aws_Config \<Rightarrow> error + 's) \<Rightarrow> ('s \<Rightarrow> 'm) \<Rightarrow> Config \<Rightarrow>
     ('m awsProvider option \<times> error option) \<times> call list" where
  "mediaConvertFactory NewSession New cfg =
     (if MediaConvert.AccessKeyID (MediaConvert cfg) = [] \<or>
         MediaConvert.SecretAccessKey (MediaConvert cfg) = []
      then ((None, Some errAWSInvalidConfig), [])
      else
        (let creds = NewStaticCredentials
               (MediaConvert.AccessKeyID (MediaConvert cfg))
               (MediaConvert.SecretAccessKey (MediaConvert cfg)) [];
             region = MediaConvert.Region (MediaConvert cfg);
             region = (if region = [] then defaultAWSRegion else region)
         in case NewSession \<lparr>Credentials = creds, Region = region\<rparr> of
              Inl err \<Rightarrow> ((None, Some err), [CallNewSession])
            | Inr awsSession \<Rightarrow>
                ((Some \<lparr>c = New awsSession, config = MediaConvert cfg\<rparr>, None),
                 [CallNewSession, CallMediaConvertNew])))"


section \<open>The specification's notions\<close>

text \<open>
  The words of the specification about the destination of a job, written independently of
  the code: the final segment of a URI is what follows its last \<open>/\<close>; the extension of
  a segment starts at its last dot, and a segment without a dot has none; the root is
  normalised by removing every \<open>/\<close> at its end.
\<close>

definition final_segment :: "string \<Rightarrow> string" where
  "final_segment uri = rev (takeWhile (\<lambda>x. x \<noteq> CHR ''/'') (rev uri))"

definition strip_extension :: "string \<Rightarrow> string" where
  "strip_extension seg =
     (if CHR ''.'' \<in> set seg then rev (tl (dropWhile (\<lambda>x. x \<noteq> CHR ''.'') (rev seg))) else seg)"

definition strip_trailing_slashes :: "string \<Rightarrow> string" where
  "strip_trailing_slashes root = rev (dropWhile (\<lambda>x. x = CHR ''/'') (rev root))"

text \<open>The number that a string of decimal digits denotes.\<close>

definition digitValue :: "char \<Rightarrow> nat" where
  "digitValue x = of_char x - 48"

definition decimalValue :: "string \<Rightarrow> nat" where
  "decimalValue s = foldl (\<lambda>a x. 10 * a + digitValue x) 0 s"


section \<open>Sample values\<close>

text \<open>Configurations, providers, responses and backends on which the theorems are run.\<close>

definition sampleElementalConductor :: ElementalConductor where
  "sampleElementalConductor =
     \<lparr>ElementalConductor.Host = ''https://conductor.example.com'',
      UserLogin = ''user'', APIKey = ''api-key'', AuthExpires = 30,
      AccessKeyID = ''AKIDEXAMPLE'', SecretAccessKey = ''secret'',
      Destination = ''s3://bucket/out/''\<rparr>"

definition sampleMediaConvert :: MediaConvert where
  "sampleMediaConvert =
     \<lparr>MediaConvert.AccessKeyID = ''AKIDEXAMPLE'', SecretAccessKey = ''secret'', Region = []\<rparr>"

definition sampleConfig :: Config where
  "sampleConfig = \<lparr>ElementalConductor = sampleElementalConductor, MediaConvert = sampleMediaConvert\<rparr>"

text \<open>A configuration that names the host and the login, and leaves both access keys empty.\<close>

definition configWithoutAccessKeys :: Config where
  "configWithoutAccessKeys =
     sampleConfig\<lparr>ElementalConductor :=
       sampleElementalConductor\<lparr>ElementalConductor.AccessKeyID := [],
                                ElementalConductor.SecretAccessKey := []\<rparr>,
       MediaConvert := sampleMediaConvert\<lparr>MediaConvert.AccessKeyID := []\<rparr>\<rparr>"

text \<open>A configuration whose authentication expiry is zero.\<close>

definition configWithoutExpiry :: Config where
  "configWithoutExpiry =
     sampleConfig\<lparr>ElementalConductor := sampleElementalConductor\<lparr>AuthExpires := 0\<rparr>,
                  MediaConvert := sampleMediaConvert\<lparr>MediaConvert.SecretAccessKey := []\<rparr>\<rparr>"

definition sampleProvider :: elementalConductorProvider where
  "sampleProvider =
     \<lparr>elementalConductorProvider.config = sampleConfig,
      client = NewClient ''https://conductor.example.com'' ''user'' ''api-key'' 30
                 ''AKIDEXAMPLE'' ''secret'' ''s3://bucket/out/''\<rparr>"

text \<open>Another provider: the same access keys and destination, another host and login.\<close>

definition otherProvider :: elementalConductorProvider where
  "otherProvider =
     \<lparr>elementalConductorProvider.config = configWithoutExpiry,
      client = NewClient ''https://backup.example.com'' ''admin'' ''other-key'' 60
                 ''AKIDEXAMPLE'' ''secret'' ''s3://bucket/out/''\<rparr>"

text \<open>A response for a job that is waiting: no timestamp is set, not even \<open>Submitted\<close>.\<close>

definition pendingResponse :: Job where
  "pendingResponse =
     \<lparr>Href = ''/jobs/42'',
      Input = \<lparr>FileInput = \<lparr>URI = [], Username = [], Password = []\<rparr>\<rparr>,
      Priority = 50,
      OutputGroup = \<lparr>OutputGroup.Order = 1,
                     FileGroupSettings =
                       \<lparr>FileGroupSettings.Destination = \<lparr>URI = [], Username = [], Password = []\<rparr>\<rparr>,
                     Type = ''file_group_settings'', Output = []\<rparr>,
      StreamAssembly = [],
      Job.Status = ''pending'',
      Submitted = zeroTime, StartTime = zeroTime, CompleteTime = zeroTime,
      ErroredTime = zeroTime,
      PercentComplete = 0,
      ErrorMessages = []\<rparr>"

text \<open>A response for a job that ran and failed at 37 percent.\<close>

definition erroredResponse :: Job where
  "erroredResponse =
     pendingResponse\<lparr>Job.Status := ''ERROR'',
       Submitted := \<lparr>sec = 63600000000, nsec = 0\<rparr>,
       StartTime := \<lparr>sec = 63600000005, nsec = 0\<rparr>,
       ErroredTime := \<lparr>sec = 63600000060, nsec = 500\<rparr>,
       PercentComplete := 37,
       ErrorMessages := [\<lparr>Code = 1040, CreatedAt = \<lparr>sec = 63600000060, nsec = 500\<rparr>,
                          Message = ''input not found''\<rparr>]\<rparr>"

text \<open>
  A backend that accepts every submission and answers it with the job under a new
  \<open>Href\<close>, and that knows job 42 as waiting and every other job as failed.
\<close>

definition acceptingBackend :: "string backend" where
  "acceptingBackend =
     \<lparr>PostJob = (\<lambda>cl job. Inr (job\<lparr>Href := ''/jobs/42'', Job.Status := ''pending''\<rparr>)),
      GetJob = (\<lambda>cl jobID. if jobID = ''42'' then Inr pendingResponse else Inr erroredResponse),
      GetID = (\<lambda>job. drop 6 (Href job))\<rparr>"

text \<open>A backend that cannot be reached.\<close>

definition failingBackend :: "string backend" where
  "failingBackend =
     \<lparr>PostJob = (\<lambda>cl job. Inl ''connection refused''),
      GetJob = (\<lambda>cl jobID. Inl ''connection refused''),
      GetID = (\<lambda>job. drop 6 (Href job))\<rparr>"


section \<open>Properties of the library functions\<close>

lemma digitValue_digits: "d < 10 \<Longrightarrow> digitValue (digits ! d) = d"
proof -
  have "\<forall>k<10. digitValue (digits ! k) = k"
    by (simp add: numeral_eq_Suc All_less_Suc digits_def digitValue_def)
  then show "d < 10 \<Longrightarrow> digitValue (digits ! d) = d"
    by blast
qed

lemma decimalValue_snoc: "decimalValue (s @ [x]) = 10 * decimalValue s + digitValue x"
  by (simp add: decimalValue_def)

lemma decimalValue_formatBits: "decimalValue (formatBits u) = u"
proof (induction u rule: formatBits.induct)
  case (1 u)
  show ?case
  proof (cases "u < 10")
    case True
    then show ?thesis
      by (subst formatBits.simps) (simp add: decimalValue_def digitValue_digits)
  next
    case False
    then show ?thesis
      using "1.IH" by (subst formatBits.simps) (simp add: decimalValue_snoc digitValue_digits)
  qed
qed

lemma decimalValue_Itoa: "decimalValue (Itoa (int n)) = n"
  by (simp add: Itoa_def decimalValue_formatBits)

lemma Itoa_0: "Itoa 0 = ''0''"
  by (simp add: Itoa_def formatBits.simps digits_def)

lemma Itoa_1: "Itoa 1 = ''1''"
  by (simp add: Itoa_def formatBits.simps digits_def)

lemma IndexByte_None: "IndexByte s x = None \<longleftrightarrow> x \<notin> set s"
  by (induction s) auto

lemma IndexByte_Some: "IndexByte s x = Some m \<Longrightarrow> m < length s \<and> s ! m = x"
  by (induction s arbitrary: m) (auto split: if_splits)

lemma takeWhile_append_stop: "\<not> P y \<Longrightarrow> takeWhile P (xs @ y # ys) = takeWhile P xs"
  by (induction xs) auto

lemma Split_not_Nil: "Split s sep \<noteq> []"
  by (subst Split.simps) (simp split: option.split)

lemma last_Split: "last (Split s sep) = rev (takeWhile (\<lambda>x. x \<noteq> sep) (rev s))"
proof (induction s sep rule: Split.induct)
  case (1 s sep)
  show ?case
  proof (cases "IndexByte s sep")
    case None
    then have "sep \<notin> set s"
      by (simp add: IndexByte_None)
    then have tw: "takeWhile (\<lambda>x. x \<noteq> sep) (rev s) = rev s"
      by (intro takeWhile_eq_all_conv[THEN iffD2]) auto
    show ?thesis
      unfolding tw using None by (simp add: Split.simps)
  next
    case (Some m)
    then have m: "m < length s" "s ! m = sep"
      by (auto dest: IndexByte_Some)
    then have s: "s = take m s @ sep # drop (m + 1) s"
      by (metis Suc_eq_plus1 id_take_nth_drop)
    have "rev (takeWhile (\<lambda>x. x \<noteq> sep) (rev s)) =
          rev (takeWhile (\<lambda>x. x \<noteq> sep) (rev (drop (m + 1) s) @ sep # rev (take m s)))"
      by (subst s) simp
    also have "\<dots> = rev (takeWhile (\<lambda>x. x \<noteq> sep) (rev (drop (m + 1) s)))"
      by (simp add: takeWhile_append_stop)
    finally show ?thesis
      using Some "1.IH"[OF Some] Split_not_Nil[of "drop (m + 1) s" sep]
      by (subst Split.simps) simp
  qed
qed

lemma slice_index_last: "xs \<noteq> [] \<Longrightarrow> slice_index xs (int (length xs) - 1) = Inr (last xs)"
  by (cases xs rule: rev_cases) (simp_all add: slice_index_def nat_diff_distrib' nth_append)

lemma extLoop_eq:
  "CHR ''/'' \<notin> set r \<Longrightarrow>
   extLoop r scanned =
     (if CHR ''.'' \<in> set r then CHR ''.'' # rev (takeWhile (\<lambda>x. x \<noteq> CHR ''.'') r) @ scanned
      else [])"
  by (induction r arbitrary: scanned) auto

lemma TrimSuffix_Ext:
  assumes "CHR ''/'' \<notin> set seg"
  shows "TrimSuffix seg (Ext seg) = strip_extension seg"
proof (cases "CHR ''.'' \<in> set seg")
  case False
  with assms show ?thesis
    by (simp add: TrimSuffix_def Ext_def extLoop_eq strip_extension_def HasSuffix_def)
next
  case True
  define r where "r = rev seg"
  define a where "a = takeWhile (\<lambda>x. x \<noteq> CHR ''.'') r"
  define b where "b = dropWhile (\<lambda>x. x \<noteq> CHR ''.'') r"
  have dot: "CHR ''.'' \<in> set r"
    using True by (simp add: r_def)
  then have "b \<noteq> []"
    by (auto simp: b_def)
  moreover have "hd b = CHR ''.''"
    using dot hd_dropWhile[of "\<lambda>x. x \<noteq> CHR ''.''" r] by (auto simp: b_def)
  ultimately have b: "b = CHR ''.'' # tl b"
    by (cases b) auto
  have r: "r = a @ b"
    by (simp add: a_def b_def)
  have seg: "seg = rev (tl b) @ CHR ''.'' # rev a"
    using r b by (metis r_def rev_append rev.simps(2) rev_rev_ident append.assoc append_Cons append_Nil)
  have ext: "Ext seg = CHR ''.'' # rev a"
    using assms True by (simp add: Ext_def extLoop_eq a_def r_def)
  have "TrimSuffix seg (Ext seg) = rev (tl b)"
    unfolding ext by (subst seg) (simp add: TrimSuffix_def HasSuffix_def)
  then show ?thesis
    using True by (simp add: strip_extension_def b_def r_def)
qed

lemma TrimRight_eq: "TrimRight s x = rev (dropWhile (\<lambda>y. y = x) (rev s))"
proof (induction s x rule: TrimRight.induct)
  case (1 s x)
  show ?case
  proof (cases s rule: rev_cases)
    case Nil
    then show ?thesis
      by (subst TrimRight.simps) simp
  next
    case (snoc ys y)
    then show ?thesis
      using "1.IH" by (subst TrimRight.simps) simp
  qed
qed

lemma final_segment_no_slash: "CHR ''/'' \<notin> set (final_segment uri)"
  unfolding final_segment_def using set_takeWhileD by fastforce

section \<open>The specification's notions are what their names say\<close>

text \<open>
  The final segment is the part of the URI after its last \<open>/\<close>; removing the trailing
  slashes removes a run of \<open>/\<close> and leaves a root that does not end in one; the
  extension removed starts at the last dot of the segment.
\<close>

lemma final_segment_decomposition:
  "\<exists>before. uri = before @ final_segment uri \<and>
     (before = [] \<or> last before = CHR ''/'') \<and>
     CHR ''/'' \<notin> set (final_segment uri)"
proof -
  define before where "before = rev (dropWhile (\<lambda>x. x \<noteq> CHR ''/'') (rev uri))"
  have "rev uri = takeWhile (\<lambda>x. x \<noteq> CHR ''/'') (rev uri) @ dropWhile (\<lambda>x. x \<noteq> CHR ''/'') (rev uri)"
    by simp
  then have "rev (rev uri) = before @ final_segment uri"
    unfolding before_def final_segment_def by (metis rev_append)
  then have whole: "uri = before @ final_segment uri"
    by simp
  have "last before = CHR ''/''" if "before \<noteq> []"
  proof -
    from that have ne: "dropWhile (\<lambda>x. x \<noteq> CHR ''/'') (rev uri) \<noteq> []"
      by (simp add: before_def)
    then have "hd (dropWhile (\<lambda>x. x \<noteq> CHR ''/'') (rev uri)) = CHR ''/''"
      using hd_dropWhile[of "\<lambda>x. x \<noteq> CHR ''/''" "rev uri"] by simp
    with ne show ?thesis
      by (simp add: before_def last_rev)
  qed
  with whole final_segment_no_slash[of uri] show ?thesis
    by blast
qed

lemma strip_trailing_slashes_decomposition:
  "\<exists>k. root = strip_trailing_slashes root @ replicate k CHR ''/'' \<and>
     (strip_trailing_slashes root = [] \<or> last (strip_trailing_slashes root) \<noteq> CHR ''/'')"
proof -
  define slashes where "slashes = takeWhile (\<lambda>x. x = CHR ''/'') (rev root)"
  have "rev root = slashes @ dropWhile (\<lambda>x. x = CHR ''/'') (rev root)"
    by (simp add: slashes_def)
  then have "rev (rev root) = strip_trailing_slashes root @ rev slashes"
    unfolding strip_trailing_slashes_def by (metis rev_append)
  moreover have "\<forall>x\<in>set (rev slashes). x = CHR ''/''"
    using set_takeWhileD[of _ "\<lambda>x. x = CHR ''/''" "rev root"] by (auto simp: slashes_def)
  then have "rev slashes = replicate (length slashes) CHR ''/''"
    by (metis length_rev replicate_length_same)
  ultimately have whole: "root = strip_trailing_slashes root @ replicate (length slashes) CHR ''/''"
    by simp
  have "last (strip_trailing_slashes root) \<noteq> CHR ''/''" if "strip_trailing_slashes root \<noteq> []"
  proof -
    from that have ne: "dropWhile (\<lambda>x. x = CHR ''/'') (rev root) \<noteq> []"
      by (simp add: strip_trailing_slashes_def)
    then have "hd (dropWhile (\<lambda>x. x = CHR ''/'') (rev root)) \<noteq> CHR ''/''"
      using hd_dropWhile[of "\<lambda>x. x = CHR ''/''" "rev root"] by simp
    with ne show ?thesis
      by (simp add: strip_trailing_slashes_def last_rev)
  qed
  with whole show ?thesis
    by blast
qed

lemma strip_extension_decomposition:
  "(CHR ''.'' \<notin> set seg \<longrightarrow> strip_extension seg = seg) \<and>
   (CHR ''.'' \<in> set seg \<longrightarrow>
      (\<exists>ext. seg = strip_extension seg @ CHR ''.'' # ext \<and> CHR ''.'' \<notin> set ext))"
proof (cases "CHR ''.'' \<in> set seg")
  case False
  then show ?thesis
    by (simp add: strip_extension_def)
next
  case True
  define a where "a = takeWhile (\<lambda>x. x \<noteq> CHR ''.'') (rev seg)"
  define b where "b = dropWhile (\<lambda>x. x \<noteq> CHR ''.'') (rev seg)"
  have "b \<noteq> []"
    using True by (auto simp: b_def)
  moreover have "hd b = CHR ''.''"
    using True hd_dropWhile[of "\<lambda>x. x \<noteq> CHR ''.''" "rev seg"] by (auto simp: b_def)
  ultimately have b: "b = CHR ''.'' # tl b"
    by (cases b) auto
  have "rev seg = a @ b"
    by (simp add: a_def b_def)
  then have "rev (rev seg) = rev b @ rev a"
    by (metis rev_append)
  then have "seg = rev (tl b) @ CHR ''.'' # rev a"
    by (subst (asm) b) simp
  moreover have "CHR ''.'' \<notin> set (rev a)"
    using set_takeWhileD[of "CHR ''.''" "\<lambda>x. x \<noteq> CHR ''.''" "rev seg"] by (auto simp: a_def)
  moreover have "strip_extension seg = rev (tl b)"
    using True by (simp add: strip_extension_def b_def)
  ultimately show ?thesis
    using True by metis
qed

section \<open>Properties of the builder\<close>

lemma buildFullDestination_eq:
  "buildFullDestination p source =
     Inr (strip_trailing_slashes (Client.Destination (client p)) @ ''/'' @
          strip_extension (final_segment source))"
proof -
  have "last (Split source CHR ''/'') = final_segment source"
    by (simp add: last_Split final_segment_def)
  then show ?thesis
    using final_segment_no_slash[of source]
    by (simp add: buildFullDestination_def Let_def slice_index_last Split_not_Nil
        TrimSuffix_Ext TrimRight_eq strip_trailing_slashes_def)
qed

lemma loop_closed:
  "buildOutputsAndStreamAssemblies_loop k presets outputList streamAssemblyList =
     (outputList @ map (\<lambda>i. \<lparr>StreamAssemblyName = ''stream_'' @ Itoa (k + int i),
                               Output.Order = k + int i, Extension = defaultExtension\<rparr>)
                     [0..<length presets],
      streamAssemblyList @ map (\<lambda>i. \<lparr>StreamAssembly.Name = ''stream_'' @ Itoa (k + int i),
                                     Preset = presets ! i\<rparr>)
                     [0..<length presets])"
proof (induction presets arbitrary: k outputList streamAssemblyList)
  case Nil
  then show ?case by simp
next
  case (Cons preset rest)
  show ?case
    unfolding buildOutputsAndStreamAssemblies_loop.simps Let_def Cons.IH
    by (simp add: map_upt_Suc add.assoc del: upt_Suc)
qed

lemma buildOutputsAndStreamAssemblies_eq:
  "buildOutputsAndStreamAssemblies presets =
     (map (\<lambda>i. \<lparr>StreamAssemblyName = ''stream_'' @ Itoa (int i),
                 Output.Order = int i, Extension = defaultExtension\<rparr>) [0..<length presets],
      map (\<lambda>i. \<lparr>StreamAssembly.Name = ''stream_'' @ Itoa (int i), Preset = presets ! i\<rparr>)
          [0..<length presets])"
  by (simp add: buildOutputsAndStreamAssemblies_def loop_closed)

lemma newJob_eq:
  "newJob p source presets =
     Inr \<lparr>Href = [],
          Input = \<lparr>FileInput = \<lparr>URI = source,
                                 Username = Client.AccessKeyID (client p),
                                 Password = Client.SecretAccessKey (client p)\<rparr>\<rparr>,
          Priority = 50,
          OutputGroup =
            \<lparr>OutputGroup.Order = 1,
             FileGroupSettings =
               \<lparr>FileGroupSettings.Destination =
                  \<lparr>URI = strip_trailing_slashes (Client.Destination (client p)) @ ''/'' @
                         strip_extension (final_segment source),
                   Username = Client.AccessKeyID (client p),
                   Password = Client.SecretAccessKey (client p)\<rparr>\<rparr>,
             Type = ''file_group_settings'',
             Output = fst (buildOutputsAndStreamAssemblies presets)\<rparr>,
          StreamAssembly = snd (buildOutputsAndStreamAssemblies presets),
          Job.Status = [],
          Submitted = zeroTime, StartTime = zeroTime, CompleteTime = zeroTime,
          ErroredTime = zeroTime,
          PercentComplete = 0,
          ErrorMessages = []\<rparr>"
  by (simp add: newJob_def buildFullDestination_eq Let_def split_beta
      defaultJobPriority_def defaultOutputGroupOrder_def)

section \<open>Properties of status normalisation and polling\<close>

text \<open>
  On ASCII strings the status depends on the string up to the case of its letters only.
\<close>

lemma statusMap_ascii_case:
  "isASCII s \<Longrightarrow> isASCII t \<Longrightarrow> map lowerByte s = map lowerByte t \<Longrightarrow>
   statusMap mapLower s = statusMap mapLower t"
  by (simp add: statusMap_def ToLower_def)

lemma ToLower_samples:
  "ToLower mapLower ''COMPLETE'' = ''complete''"
  "ToLower mapLower ''Complete'' = ''complete''"
  "ToLower mapLower ''complete'' = ''complete''"
  "ToLower mapLower ''unknown_state'' = ''unknown_state''"
  "ToLower mapLower [] = []"
  "ToLower mapLower ''PENDING'' = ''pending''"
  "ToLower mapLower ''Running'' = ''running''"
  "ToLower mapLower ''Cancelled'' = ''cancelled''"
  "ToLower mapLower ''ARCHIVED'' = ''archived''"
  "ToLower mapLower ''ERROR'' = ''error''"
  by code_simp+

text \<open>The whole result of a poll that the backend answers, with the detail map as a table.\<close>

lemma JobStatus_eq:
  "GetJob b (client p) jobID = Inr resp \<Longrightarrow>
   JobStatus mapLower b p jobID =
     (Some \<lparr>ProviderName = ''elementalconductor'',
            ProviderJobID = GetID b resp,
            Status = statusMap mapLower (Job.Status resp),
            ProviderStatus =
              (\<lambda>k. if k = ''error_messages'' \<and> ErrorMessages resp \<noteq> []
                       then Some (DetailErrors (ErrorMessages resp))
                     else if k = ''errored_time'' \<and> \<not> IsZero (ErroredTime resp)
                       then Some (DetailTime (ErroredTime resp))
                     else if k = ''complete_time'' \<and> \<not> IsZero (CompleteTime resp)
                       then Some (DetailTime (CompleteTime resp))
                     else if k = ''start_time'' \<and> \<not> IsZero (StartTime resp)
                       then Some (DetailTime (StartTime resp))
                     else if k = ''submitted'' then Some (DetailTime (Submitted resp))
                     else if k = ''pct_complete''
                       then Some (DetailString (Itoa (PercentComplete resp)))
                     else if k = ''status'' then Some (DetailString (Job.Status resp))
                     else None)\<rparr>, None)"
  by (auto simp add: JobStatus_def Let_def Name_def fun_eq_iff)

section \<open>The claims\<close>

text \<open>
  C1. For a list of \<open>n\<close> presets, \<open>buildOutputsAndStreamAssemblies\<close> returns \<open>n\<close>
  outputs and \<open>n\<close> stream assemblies. At every index \<open>i\<close> below \<open>n\<close> the output has
  the stream assembly name \<open>stream_i\<close> (the decimal digits of \<open>i\<close>), the order \<open>i\<close>
  and the extension \<open>.mp4\<close>, and the stream assembly has the name \<open>stream_i\<close> and the
  \<open>i\<close>-th preset of the list.
\<close>

theorem buildOutputsAndStreamAssemblies_paired:
  "length (fst (buildOutputsAndStreamAssemblies presets)) = length presets \<and>
   length (snd (buildOutputsAndStreamAssemblies presets)) = length presets \<and>
   (\<forall>i<length presets.
      StreamAssemblyName (fst (buildOutputsAndStreamAssemblies presets) ! i) =
        ''stream_'' @ Itoa (int i) \<and>
      Output.Order (fst (buildOutputsAndStreamAssemblies presets) ! i) = int i \<and>
      Extension (fst (buildOutputsAndStreamAssemblies presets) ! i) = ''.mp4'' \<and>
      StreamAssembly.Name (snd (buildOutputsAndStreamAssemblies presets) ! i) =
        ''stream_'' @ Itoa (int i) \<and>
      Preset (snd (buildOutputsAndStreamAssemblies presets) ! i) = presets ! i)"
  by (simp add: buildOutputsAndStreamAssemblies_eq defaultExtension_def)

theorem buildOutputsAndStreamAssemblies_paired_witness:
  "(1::nat) < length [''preset-a'', ''preset-b''] \<and>
   length (fst (buildOutputsAndStreamAssemblies [''preset-a'', ''preset-b''])) = 2 \<and>
   length (snd (buildOutputsAndStreamAssemblies [''preset-a'', ''preset-b''])) = 2 \<and>
   fst (buildOutputsAndStreamAssemblies [''preset-a'', ''preset-b'']) ! 1 =
     \<lparr>StreamAssemblyName = ''stream_1'', Output.Order = 1, Extension = ''.mp4''\<rparr> \<and>
   snd (buildOutputsAndStreamAssemblies [''preset-a'', ''preset-b'']) ! 1 =
     \<lparr>StreamAssembly.Name = ''stream_1'', Preset = ''preset-b''\<rparr>"
proof -
  have one: "(1::nat) < length [''preset-a'', ''preset-b'']"
    by simp
  from buildOutputsAndStreamAssemblies_paired [of "[''preset-a'', ''preset-b'']"]
  have len: "length (fst (buildOutputsAndStreamAssemblies [''preset-a'', ''preset-b''])) = 2"
    "length (snd (buildOutputsAndStreamAssemblies [''preset-a'', ''preset-b''])) = 2"
    and at: "\<forall>i<length [''preset-a'', ''preset-b''].
      StreamAssemblyName (fst (buildOutputsAndStreamAssemblies [''preset-a'', ''preset-b'']) ! i) =
        ''stream_'' @ Itoa (int i) \<and>
      Output.Order (fst (buildOutputsAndStreamAssemblies [''preset-a'', ''preset-b'']) ! i) = int i \<and>
      Extension (fst (buildOutputsAndStreamAssemblies [''preset-a'', ''preset-b'']) ! i) = ''.mp4'' \<and>
      StreamAssembly.Name (snd (buildOutputsAndStreamAssemblies [''preset-a'', ''preset-b'']) ! i) =
        ''stream_'' @ Itoa (int i) \<and>
      Preset (snd (buildOutputsAndStreamAssemblies [''preset-a'', ''preset-b'']) ! i) =
        [''preset-a'', ''preset-b''] ! i"
    by simp_all
  from at one show ?thesis
    using len by (auto simp: Itoa_1 intro: Output.equality StreamAssembly.equality)
qed

text \<open>
  C2. \<open>statusMap\<close> is total and decides on the lowercased status alone: \<open>pending\<close>
  gives queued; \<open>preprocessing\<close>, \<open>running\<close> and \<open>postprocessing\<close> give started;
  \<open>complete\<close> gives finished; \<open>cancelled\<close> gives canceled; \<open>archived\<close> gives
  archived; every other string, the empty one included, gives failed. The result is always
  one of the six canonical statuses. \<open>COMPLETE\<close>, \<open>complete\<close> and \<open>Complete\<close> all
  give finished, and \<open>unknown_state\<close> gives failed.
\<close>

theorem statusMap_total_case_insensitive:
  "(ToLower mapLower s = ''pending'' \<longrightarrow> statusMap mapLower s = StatusQueued) \<and>
   (ToLower mapLower s \<in> {''preprocessing'', ''running'', ''postprocessing''} \<longrightarrow>
      statusMap mapLower s = StatusStarted) \<and>
   (ToLower mapLower s = ''complete'' \<longrightarrow> statusMap mapLower s = StatusFinished) \<and>
   (ToLower mapLower s = ''cancelled'' \<longrightarrow> statusMap mapLower s = StatusCanceled) \<and>
   (ToLower mapLower s = ''archived'' \<longrightarrow> statusMap mapLower s = StatusArchived) \<and>
   (ToLower mapLower s \<notin> {''pending'', ''preprocessing'', ''running'', ''postprocessing'',
                             ''complete'', ''cancelled'', ''archived''} \<longrightarrow>
      statusMap mapLower s = StatusFailed) \<and>
   statusMap mapLower s \<in> {StatusQueued, StatusStarted, StatusFinished, StatusFailed,
                            StatusCanceled, StatusArchived} \<and>
   statusMap mapLower ''COMPLETE'' = StatusFinished \<and>
   statusMap mapLower ''complete'' = StatusFinished \<and>
   statusMap mapLower ''Complete'' = StatusFinished \<and>
   statusMap mapLower ''unknown_state'' = StatusFailed \<and>
   statusMap mapLower [] = StatusFailed"
proof -
  have table: "statusMap mapLower s =
      (if ToLower mapLower s = ''pending'' then StatusQueued
       else if ToLower mapLower s \<in> {''preprocessing'', ''running'', ''postprocessing''}
         then StatusStarted
       else if ToLower mapLower s = ''complete'' then StatusFinished
       else if ToLower mapLower s = ''cancelled'' then StatusCanceled
       else if ToLower mapLower s = ''archived'' then StatusArchived
       else StatusFailed)"
    by (simp add: statusMap_def Let_def)
  have samples: "statusMap mapLower ''COMPLETE'' = StatusFinished"
    "statusMap mapLower ''complete'' = StatusFinished"
    "statusMap mapLower ''Complete'' = StatusFinished"
    "statusMap mapLower ''unknown_state'' = StatusFailed"
    "statusMap mapLower [] = StatusFailed"
    by (simp_all add: statusMap_def ToLower_samples)
  show ?thesis
    unfolding table using samples[unfolded table] by simp
qed

theorem statusMap_total_case_insensitive_witness:
  "ToLower (\<lambda>s. s) ''PENDING'' = ''pending'' \<and>
   statusMap (\<lambda>s. s) ''PENDING'' = StatusQueued \<and>
   ToLower (\<lambda>s. s) ''Running'' \<in> {''preprocessing'', ''running'', ''postprocessing''} \<and>
   statusMap (\<lambda>s. s) ''Running'' = StatusStarted \<and>
   ToLower (\<lambda>s. s) ''COMPLETE'' = ''complete'' \<and>
   statusMap (\<lambda>s. s) ''COMPLETE'' = StatusFinished \<and>
   ToLower (\<lambda>s. s) ''Cancelled'' = ''cancelled'' \<and>
   statusMap (\<lambda>s. s) ''Cancelled'' = StatusCanceled \<and>
   ToLower (\<lambda>s. s) ''ARCHIVED'' = ''archived'' \<and>
   statusMap (\<lambda>s. s) ''ARCHIVED'' = StatusArchived \<and>
   ToLower (\<lambda>s. s) ''ERROR'' \<notin> {''pending'', ''preprocessing'', ''running'', ''postprocessing'',
                                    ''complete'', ''cancelled'', ''archived''} \<and>
   statusMap (\<lambda>s. s) ''ERROR'' = StatusFailed"
  using statusMap_total_case_insensitive [of "\<lambda>s. s" "''PENDING''"]
    statusMap_total_case_insensitive [of "\<lambda>s. s" "''Running''"]
    statusMap_total_case_insensitive [of "\<lambda>s. s" "''COMPLETE''"]
    statusMap_total_case_insensitive [of "\<lambda>s. s" "''Cancelled''"]
    statusMap_total_case_insensitive [of "\<lambda>s. s" "''ARCHIVED''"]
    statusMap_total_case_insensitive [of "\<lambda>s. s" "''ERROR''"]
  by (simp add: ToLower_samples)

text \<open>
  C3. For every source and destination root, \<open>buildFullDestination\<close> returns the root
  without the \<open>/\<close> at its end, then \<open>/\<close>, then the final segment of the source
  without its extension. With the root \<open>s3://bucket/out/\<close> and the source
  \<open>/a/b/clip.mov\<close> the result is \<open>s3://bucket/out/clip\<close>.
\<close>

theorem buildFullDestination_derivation:
  "buildFullDestination p source =
     Inr (strip_trailing_slashes (Client.Destination (client p)) @ ''/'' @
          strip_extension (final_segment source)) \<and>
   buildFullDestination (p\<lparr>client := (client p)\<lparr>Client.Destination := ''s3://bucket/out/''\<rparr>\<rparr>)
     ''/a/b/clip.mov'' = Inr ''s3://bucket/out/clip''"
  by (simp add: buildFullDestination_eq strip_trailing_slashes_def strip_extension_def
      final_segment_def)

theorem buildFullDestination_derivation_witness:
  "buildFullDestination sampleProvider ''s3://in/video.mp4'' = Inr ''s3://bucket/out/video'' \<and>
   buildFullDestination sampleProvider ''/a/b/clip.mov'' = Inr ''s3://bucket/out/clip''"
proof -
  have root: "sampleProvider\<lparr>client := (client sampleProvider)\<lparr>Client.Destination := ''s3://bucket/out/''\<rparr>\<rparr>
      = sampleProvider"
    by (simp add: sampleProvider_def NewClient_def)
  have "strip_trailing_slashes (Client.Destination (client sampleProvider)) @ ''/'' @
      strip_extension (final_segment ''s3://in/video.mp4'') = ''s3://bucket/out/video''"
    by (simp add: sampleProvider_def NewClient_def strip_trailing_slashes_def
        strip_extension_def final_segment_def)
  with buildFullDestination_derivation [of sampleProvider "''s3://in/video.mp4''"] root
  show ?thesis
    by simp
qed

text \<open>
  C4, as amended. When the backend answers a poll, the detail map of the returned job
  status always holds \<open>pct_complete\<close>, the percent-complete value as a decimal string,
  and also \<open>status\<close> and \<open>submitted\<close>, whatever their values; it holds
  \<open>start_time\<close>, \<open>complete_time\<close> and \<open>errored_time\<close> exactly when the
  corresponding timestamp of the response is not zero, and \<open>error_messages\<close> exactly when
  the list of error messages is not empty; it holds no other key.
\<close>

theorem statusDetail_sparse:
  "GetJob b (client p) jobID = Inr resp \<Longrightarrow>
   \<exists>js. JobStatus mapLower b p jobID = (Some js, None) \<and>
     ProviderStatus js ''pct_complete'' = Some (DetailString (Itoa (PercentComplete resp))) \<and>
     ProviderStatus js ''status'' = Some (DetailString (Job.Status resp)) \<and>
     ProviderStatus js ''submitted'' = Some (DetailTime (Submitted resp)) \<and>
     ProviderStatus js ''start_time'' =
       (if IsZero (StartTime resp) then None else Some (DetailTime (StartTime resp))) \<and>
     ProviderStatus js ''complete_time'' =
       (if IsZero (CompleteTime resp) then None else Some (DetailTime (CompleteTime resp))) \<and>
     ProviderStatus js ''errored_time'' =
       (if IsZero (ErroredTime resp) then None else Some (DetailTime (ErroredTime resp))) \<and>
     ProviderStatus js ''error_messages'' =
       (if ErrorMessages resp = [] then None else Some (DetailErrors (ErrorMessages resp))) \<and>
     dom (ProviderStatus js) \<subseteq>
       {''status'', ''pct_complete'', ''submitted'', ''start_time'', ''complete_time'',
        ''errored_time'', ''error_messages''}"
  by (simp add: JobStatus_eq dom_def subset_iff)

theorem statusDetail_sparse_witness:
  "GetJob acceptingBackend (client sampleProvider) ''7'' = Inr erroredResponse \<and>
   (\<exists>js. JobStatus (\<lambda>s. s) acceptingBackend sampleProvider ''7'' = (Some js, None) \<and>
     ProviderStatus js ''pct_complete'' = Some (DetailString ''37'') \<and>
     ProviderStatus js ''status'' = Some (DetailString ''ERROR'') \<and>
     ProviderStatus js ''submitted'' = Some (DetailTime \<lparr>sec = 63600000000, nsec = 0\<rparr>) \<and>
     ProviderStatus js ''start_time'' = Some (DetailTime \<lparr>sec = 63600000005, nsec = 0\<rparr>) \<and>
     ProviderStatus js ''complete_time'' = None \<and>
     ProviderStatus js ''errored_time'' = Some (DetailTime \<lparr>sec = 63600000060, nsec = 500\<rparr>) \<and>
     ProviderStatus js ''error_messages'' =
       Some (DetailErrors [\<lparr>Code = 1040, CreatedAt = \<lparr>sec = 63600000060, nsec = 500\<rparr>,
                            Message = ''input not found''\<rparr>]))"
proof -
  have get: "GetJob acceptingBackend (client sampleProvider) ''7'' = Inr erroredResponse"
    by (simp add: acceptingBackend_def)
  have pct: "Itoa (PercentComplete erroredResponse) = ''37''"
    by (simp add: erroredResponse_def Itoa_def formatBits.simps digits_def)
  have fields: "Job.Status erroredResponse = ''ERROR''"
    "Submitted erroredResponse = \<lparr>sec = 63600000000, nsec = 0\<rparr>"
    "StartTime erroredResponse = \<lparr>sec = 63600000005, nsec = 0\<rparr>"
    "CompleteTime erroredResponse = \<lparr>sec = 0, nsec = 0\<rparr>"
    "ErroredTime erroredResponse = \<lparr>sec = 63600000060, nsec = 500\<rparr>"
    "ErrorMessages erroredResponse =
       [\<lparr>Code = 1040, CreatedAt = \<lparr>sec = 63600000060, nsec = 500\<rparr>,
         Message = ''input not found''\<rparr>]"
    by (simp_all add: erroredResponse_def pendingResponse_def zeroTime_def)
  from statusDetail_sparse [OF get, of "\<lambda>s. s"]
  obtain js where "JobStatus (\<lambda>s. s) acceptingBackend sampleProvider ''7'' = (Some js, None)"
    and "ProviderStatus js ''pct_complete'' = Some (DetailString ''37'')"
    and "ProviderStatus js ''status'' = Some (DetailString ''ERROR'')"
    and "ProviderStatus js ''submitted'' = Some (DetailTime \<lparr>sec = 63600000000, nsec = 0\<rparr>)"
    and "ProviderStatus js ''start_time'' = Some (DetailTime \<lparr>sec = 63600000005, nsec = 0\<rparr>)"
    and "ProviderStatus js ''complete_time'' = None"
    and "ProviderStatus js ''errored_time'' =
           Some (DetailTime \<lparr>sec = 63600000060, nsec = 500\<rparr>)"
    and "ProviderStatus js ''error_messages'' =
           Some (DetailErrors [\<lparr>Code = 1040, CreatedAt = \<lparr>sec = 63600000060, nsec = 500\<rparr>,
                                Message = ''input not found''\<rparr>])"
    unfolding pct fields by (auto simp: IsZero_def)
  with get show ?thesis
    by blast
qed

text \<open>
  C4 as stated fails for the timestamp \<open>submitted\<close>: the key is in the detail map of a
  response whose \<open>Submitted\<close> is the zero time.
\<close>

theorem statusDetail_submitted_counterexample:
  "GetJob acceptingBackend (client sampleProvider) ''42'' = Inr pendingResponse \<and>
   IsZero (Submitted pendingResponse) \<and>
   fst (JobStatus (\<lambda>s. s) acceptingBackend sampleProvider ''42'') \<noteq> None \<and>
   ProviderStatus (the (fst (JobStatus (\<lambda>s. s) acceptingBackend sampleProvider ''42'')))
     ''submitted'' = Some (DetailTime zeroTime)"
proof -
  have get: "GetJob acceptingBackend (client sampleProvider) ''42'' = Inr pendingResponse"
    by (simp add: acceptingBackend_def)
  have zero: "IsZero (Submitted pendingResponse)" "Submitted pendingResponse = zeroTime"
    by (simp_all add: pendingResponse_def IsZero_def zeroTime_def)
  show ?thesis
    using get zero by (simp add: JobStatus_eq [OF get])
qed

text \<open>
  C5, as amended. \<open>elementalConductorFactory\<close> returns an \<open>InvalidConfigError\<close> and no
  provider, without having called \<open>NewClient\<close>, when the host, the user login or the API
  key is empty or the authentication expiry is zero, and returns a provider otherwise,
  whatever the access keys and the destination are. \<open>mediaConvertFactory\<close> returns its
  error \<open>errAWSInvalidConfig\<close> and no provider, without having built a session or a
  service client, when the access key or the secret access key is empty.
\<close>

theorem factories_reject_before_any_call:
  "(ElementalConductor.Host (ElementalConductor cfg) = [] \<or>
    ElementalConductor.UserLogin (ElementalConductor cfg) = [] \<or>
    ElementalConductor.APIKey (ElementalConductor cfg) = [] \<or>
    ElementalConductor.AuthExpires (ElementalConductor cfg) = 0 \<longrightarrow>
      (\<exists>msg. elementalConductorFactory cfg = ((None, Some (InvalidConfigError msg)), []))) \<and>
   (ElementalConductor.Host (ElementalConductor cfg) \<noteq> [] \<and>
    ElementalConductor.UserLogin (ElementalConductor cfg) \<noteq> [] \<and>
    ElementalConductor.APIKey (ElementalConductor cfg) \<noteq> [] \<and>
    ElementalConductor.AuthExpires (ElementalConductor cfg) \<noteq> 0 \<longrightarrow>
      (\<exists>pr. elementalConductorFactory cfg = ((Some pr, None), [CallNewClient]))) \<and>
   (MediaConvert.AccessKeyID (MediaConvert cfg) = [] \<or>
    MediaConvert.SecretAccessKey (MediaConvert cfg) = [] \<longrightarrow>
      mediaConvertFactory NewSession New cfg = ((None, Some errAWSInvalidConfig), []))"
  by (simp add: elementalConductorFactory_def mediaConvertFactory_def
      errElementalConductorInvalidConfig_def)

theorem factories_reject_before_any_call_witness:
  "ElementalConductor.AuthExpires (ElementalConductor configWithoutExpiry) = 0 \<and>
   (\<exists>msg. elementalConductorFactory configWithoutExpiry =
            ((None, Some (InvalidConfigError msg)), [])) \<and>
   ElementalConductor.Host (ElementalConductor sampleConfig) \<noteq> [] \<and>
   ElementalConductor.UserLogin (ElementalConductor sampleConfig) \<noteq> [] \<and>
   ElementalConductor.APIKey (ElementalConductor sampleConfig) \<noteq> [] \<and>
   ElementalConductor.AuthExpires (ElementalConductor sampleConfig) \<noteq> 0 \<and>
   (\<exists>pr. elementalConductorFactory sampleConfig = ((Some pr, None), [CallNewClient])) \<and>
   MediaConvert.SecretAccessKey (MediaConvert configWithoutExpiry) = [] \<and>
   mediaConvertFactory (\<lambda>awsConfig. Inr awsConfig) (\<lambda>awsSession. awsSession) configWithoutExpiry =
     ((None, Some errAWSInvalidConfig), [])"
proof -
  have expiry: "ElementalConductor.AuthExpires (ElementalConductor configWithoutExpiry) = 0"
    and secret: "MediaConvert.SecretAccessKey (MediaConvert configWithoutExpiry) = []"
    by (simp_all add: configWithoutExpiry_def sampleConfig_def)
  have valid: "ElementalConductor.Host (ElementalConductor sampleConfig) \<noteq> []"
    "ElementalConductor.UserLogin (ElementalConductor sampleConfig) \<noteq> []"
    "ElementalConductor.APIKey (ElementalConductor sampleConfig) \<noteq> []"
    "ElementalConductor.AuthExpires (ElementalConductor sampleConfig) \<noteq> 0"
    by (simp_all add: sampleConfig_def sampleElementalConductor_def)
  from factories_reject_before_any_call
         [of configWithoutExpiry "\<lambda>awsConfig. Inr awsConfig" "\<lambda>awsSession. awsSession"]
       factories_reject_before_any_call
         [of sampleConfig "\<lambda>awsConfig. Inr awsConfig" "\<lambda>awsSession. awsSession"]
       expiry secret valid
  show ?thesis
    by blast
qed

text \<open>
  C5 as stated fails for empty access keys: \<open>elementalConductorFactory\<close> does not
  look at them and returns a provider. The error that \<open>mediaConvertFactory\<close> returns for
  them is a plain error value, not an \<open>InvalidConfigError\<close>.
\<close>

theorem factory_accepts_empty_access_keys_counterexample:
  "ElementalConductor.AccessKeyID (ElementalConductor configWithoutAccessKeys) = [] \<and>
   ElementalConductor.SecretAccessKey (ElementalConductor configWithoutAccessKeys) = [] \<and>
   elementalConductorFactory configWithoutAccessKeys =
     ((Some \<lparr>elementalConductorProvider.config = configWithoutAccessKeys,
             client = NewClient ''https://conductor.example.com'' ''user'' ''api-key'' 30
                        [] [] ''s3://bucket/out/''\<rparr>, None), [CallNewClient]) \<and>
   MediaConvert.AccessKeyID (MediaConvert configWithoutAccessKeys) = [] \<and>
   fst (mediaConvertFactory (\<lambda>awsConfig. Inr awsConfig) (\<lambda>awsSession. awsSession)
          configWithoutAccessKeys) =
     (None, Some (ErrorString
       ''invalid Media Convert config. Please define the configuration entries in the config file or environment variables''))"
  by (simp add: configWithoutAccessKeys_def sampleConfig_def sampleElementalConductor_def
      sampleMediaConvert_def elementalConductorFactory_def mediaConvertFactory_def
      errAWSInvalidConfig_def)

text \<open>
  C6. When the backend call of a submission (\<open>PostJob\<close>) or of a poll (\<open>GetJob\<close>)
  returns an error, \<open>TranscodeWithPresets\<close> and \<open>JobStatus\<close> return that very error
  and no job status. The job that a submission posts always exists.
\<close>

theorem backend_error_propagated:
  "(\<exists>job. newJob p source presets = Inr job \<and>
      (PostJob b (client p) job = Inl err \<longrightarrow>
         TranscodeWithPresets b p source presets = Inr (None, Some err))) \<and>
   (GetJob b (client p) jobID = Inl err \<longrightarrow> JobStatus mapLower b p jobID = (None, Some err))"
  by (simp add: TranscodeWithPresets_def JobStatus_def newJob_eq)

theorem backend_error_propagated_witness:
  "(\<exists>job. newJob sampleProvider ''s3://in/video.mp4'' [''preset-a''] = Inr job \<and>
      PostJob failingBackend (client sampleProvider) job = Inl ''connection refused'' \<and>
      TranscodeWithPresets failingBackend sampleProvider ''s3://in/video.mp4'' [''preset-a''] =
        Inr (None, Some ''connection refused'')) \<and>
   GetJob failingBackend (client sampleProvider) ''42'' = Inl ''connection refused'' \<and>
   JobStatus (\<lambda>s. s) failingBackend sampleProvider ''42'' = (None, Some ''connection refused'')"
proof -
  have post: "PostJob failingBackend cl job = Inl ''connection refused''" for cl job
    by (simp add: failingBackend_def)
  have get: "GetJob failingBackend (client sampleProvider) ''42'' = Inl ''connection refused''"
    by (simp add: failingBackend_def)
  from backend_error_propagated
         [of sampleProvider "''s3://in/video.mp4''" "[''preset-a'']" failingBackend
             "''connection refused''" "''42''" "\<lambda>s. s"]
       post get
  show ?thesis
    by simp
qed

text \<open>
  C7. For the source \<open>s3://in/video.mp4\<close> and the presets \<open>preset-a\<close>,
  \<open>preset-b\<close> the built request has exactly two outputs, of orders 0 and 1, and the
  stream assemblies \<open>stream_0\<close> with \<open>preset-a\<close> and \<open>stream_1\<close> with
  \<open>preset-b\<close>. Whenever the backend accepts a submission, \<open>TranscodeWithPresets\<close>
  returns a job status with the provider name \<open>elementalconductor\<close>, the identifier of
  the backend's response and the status queued, and no error.
\<close>

theorem submission_end_to_end:
  "(\<exists>job. newJob p ''s3://in/video.mp4'' [''preset-a'', ''preset-b''] = Inr job \<and>
      Output (OutputGroup job) =
        [\<lparr>StreamAssemblyName = ''stream_0'', Output.Order = 0, Extension = ''.mp4''\<rparr>,
         \<lparr>StreamAssemblyName = ''stream_1'', Output.Order = 1, Extension = ''.mp4''\<rparr>] \<and>
      StreamAssembly job =
        [\<lparr>StreamAssembly.Name = ''stream_0'', Preset = ''preset-a''\<rparr>,
         \<lparr>StreamAssembly.Name = ''stream_1'', Preset = ''preset-b''\<rparr>]) \<and>
   (\<exists>job. newJob p source presets = Inr job \<and>
      (\<forall>resp. PostJob b (client p) job = Inr resp \<longrightarrow>
         TranscodeWithPresets b p source presets =
           Inr (Some \<lparr>ProviderName = ''elementalconductor'',
                       ProviderJobID = GetID b resp,
                       Status = StatusQueued,
                       ProviderStatus = Map.empty\<rparr>, None)))"
proof -
  have lists: "buildOutputsAndStreamAssemblies [''preset-a'', ''preset-b''] =
      ([\<lparr>StreamAssemblyName = ''stream_0'', Output.Order = 0, Extension = ''.mp4''\<rparr>,
        \<lparr>StreamAssemblyName = ''stream_1'', Output.Order = 1, Extension = ''.mp4''\<rparr>],
       [\<lparr>StreamAssembly.Name = ''stream_0'', Preset = ''preset-a''\<rparr>,
        \<lparr>StreamAssembly.Name = ''stream_1'', Preset = ''preset-b''\<rparr>])"
    by (simp add: buildOutputsAndStreamAssemblies_def Let_def Itoa_0 Itoa_1 defaultExtension_def)
  show ?thesis
    by (simp add: newJob_eq lists TranscodeWithPresets_def Name_def)
qed

theorem submission_end_to_end_witness:
  "\<exists>job. newJob sampleProvider ''s3://in/video.mp4'' [''preset-a'', ''preset-b''] = Inr job \<and>
     PostJob acceptingBackend (client sampleProvider) job =
       Inr (job\<lparr>Href := ''/jobs/42'', Job.Status := ''pending''\<rparr>) \<and>
     TranscodeWithPresets acceptingBackend sampleProvider ''s3://in/video.mp4''
         [''preset-a'', ''preset-b''] =
       Inr (Some \<lparr>ProviderName = ''elementalconductor'', ProviderJobID = ''42'',
                   Status = StatusQueued, ProviderStatus = Map.empty\<rparr>, None)"
proof -
  from submission_end_to_end
         [of sampleProvider "''s3://in/video.mp4''" "[''preset-a'', ''preset-b'']" acceptingBackend]
  obtain job where job: "newJob sampleProvider ''s3://in/video.mp4'' [''preset-a'', ''preset-b''] = Inr job"
    and accepted: "\<forall>resp. PostJob acceptingBackend (client sampleProvider) job = Inr resp \<longrightarrow>
         TranscodeWithPresets acceptingBackend sampleProvider ''s3://in/video.mp4''
             [''preset-a'', ''preset-b''] =
           Inr (Some \<lparr>ProviderName = ''elementalconductor'',
                       ProviderJobID = GetID acceptingBackend resp,
                       Status = StatusQueued,
                       ProviderStatus = Map.empty\<rparr>, None)"
    by blast
  have post: "PostJob acceptingBackend (client sampleProvider) job =
      Inr (job\<lparr>Href := ''/jobs/42'', Job.Status := ''pending''\<rparr>)"
    by (simp add: acceptingBackend_def)
  have "GetID acceptingBackend (job\<lparr>Href := ''/jobs/42'', Job.Status := ''pending''\<rparr>) = ''42''"
    by (simp add: acceptingBackend_def)
  with accepted post job show ?thesis
    by simp
qed

text \<open>
  C8. \<open>newJob\<close> is a function of the source, the presets and the client's access key,
  secret access key and destination: two providers that agree on these three build the
  same request from the same source and presets, whatever else they hold.
\<close>

theorem newJob_deterministic:
  "Client.AccessKeyID (client p) = Client.AccessKeyID (client p') \<Longrightarrow>
   Client.SecretAccessKey (client p) = Client.SecretAccessKey (client p') \<Longrightarrow>
   Client.Destination (client p) = Client.Destination (client p') \<Longrightarrow>
   newJob p source presets = newJob p' source presets"
  by (simp add: newJob_eq)

theorem newJob_deterministic_witness:
  "Client.AccessKeyID (client sampleProvider) = Client.AccessKeyID (client otherProvider) \<and>
   Client.SecretAccessKey (client sampleProvider) = Client.SecretAccessKey (client otherProvider) \<and>
   Client.Destination (client sampleProvider) = Client.Destination (client otherProvider) \<and>
   sampleProvider \<noteq> otherProvider \<and>
   newJob sampleProvider ''s3://in/video.mp4'' [''preset-a'', ''preset-b''] =
     newJob otherProvider ''s3://in/video.mp4'' [''preset-a'', ''preset-b'']"
proof -
  have same: "Client.AccessKeyID (client sampleProvider) = Client.AccessKeyID (client otherProvider)"
    "Client.SecretAccessKey (client sampleProvider) = Client.SecretAccessKey (client otherProvider)"
    "Client.Destination (client sampleProvider) = Client.Destination (client otherProvider)"
    by (simp_all add: sampleProvider_def otherProvider_def NewClient_def)
  have "Client.Host (client sampleProvider) \<noteq> Client.Host (client otherProvider)"
    by (simp add: sampleProvider_def otherProvider_def NewClient_def)
  then have different: "sampleProvider \<noteq> otherProvider"
    by auto
  from newJob_deterministic [OF same] same different show ?thesis
    by simp
qed

text \<open>
  C9. \<open>newJob\<close> returns a request for every source and every list of presets, with as
  many outputs and stream assemblies as presets; for the empty list both are empty; the
  empty source is accepted; \<open>buildFullDestination\<close> never indexes out of range.
\<close>

theorem newJob_total:
  "(\<exists>job. newJob p source presets = Inr job \<and>
      length (Output (OutputGroup job)) = length presets \<and>
      length (StreamAssembly job) = length presets) \<and>
   (\<exists>job. newJob p source [] = Inr job \<and>
      Output (OutputGroup job) = [] \<and> StreamAssembly job = []) \<and>
   (\<exists>job. newJob p [] presets = Inr job) \<and>
   (\<exists>destination. buildFullDestination p source = Inr destination)"
  by (simp add: newJob_eq buildFullDestination_eq buildOutputsAndStreamAssemblies_eq)

theorem newJob_total_witness:
  "\<exists>job. newJob sampleProvider [] [] = Inr job \<and>
     Output (OutputGroup job) = [] \<and> StreamAssembly job = [] \<and>
     URI (FileGroupSettings.Destination (FileGroupSettings (OutputGroup job))) =
       ''s3://bucket/out/''"
proof -
  from newJob_total [of sampleProvider "[]" "[]"]
  obtain job where job: "newJob sampleProvider [] [] = Inr job"
    and "Output (OutputGroup job) = []" and "StreamAssembly job = []"
    by blast
  moreover from job
  have "URI (FileGroupSettings.Destination (FileGroupSettings (OutputGroup job))) =
      ''s3://bucket/out/''"
    by (auto simp add: newJob_eq sampleProvider_def NewClient_def strip_trailing_slashes_def
        strip_extension_def final_segment_def)
  ultimately show ?thesis
    by blast
qed

text \<open>
  C10. The destination depends on the source through its final segment without the
  extension only: two sources whose final segments agree once the extension is removed,
  such as \<open>/a/clip.mov\<close> and \<open>/b/clip.mov\<close>, get the same destination from
  providers with the same destination root.
\<close>

theorem buildFullDestination_same_final_segment:
  "Client.Destination (client p) = Client.Destination (client p') \<Longrightarrow>
   strip_extension (final_segment source) = strip_extension (final_segment source') \<Longrightarrow>
   buildFullDestination p source = buildFullDestination p' source'"
  by (simp add: buildFullDestination_eq)

theorem buildFullDestination_same_final_segment_witness:
  "Client.Destination (client sampleProvider) = Client.Destination (client otherProvider) \<and>
   strip_extension (final_segment ''/a/clip.mov'') = strip_extension (final_segment ''/b/clip.mov'') \<and>
   ''/a/clip.mov'' \<noteq> ''/b/clip.mov'' \<and>
   buildFullDestination sampleProvider ''/a/clip.mov'' =
     buildFullDestination otherProvider ''/b/clip.mov'' \<and>
   buildFullDestination sampleProvider ''/a/clip.mov'' = Inr ''s3://bucket/out/clip''"
proof -
  have dest: "Client.Destination (client sampleProvider) = Client.Destination (client otherProvider)"
    by (simp add: sampleProvider_def otherProvider_def NewClient_def)
  have seg: "strip_extension (final_segment ''/a/clip.mov'') =
      strip_extension (final_segment ''/b/clip.mov'')"
    by (simp add: strip_extension_def final_segment_def)
  have val: "buildFullDestination otherProvider ''/b/clip.mov'' = Inr ''s3://bucket/out/clip''"
    by (simp add: buildFullDestination_eq otherProvider_def NewClient_def
        strip_trailing_slashes_def strip_extension_def final_segment_def)
  from buildFullDestination_same_final_segment [OF dest seg] dest seg val
  show ?thesis
    by simp
qed

end
